theory Spec2Isabelle
  imports Complex_Main
begin

section \<open>The GhostLedger ACB engine (acb_engine.py)\<close>

text \<open>
  The engine keeps one pool \<open>(total_cost, total_btc)\<close>, processes transactions in
  chronological order and emits one ledger entry per recognised transaction.

  Modelling conventions.
  \<^item> A Python \<open>Decimal\<close> is modelled by an exact rational. The values of the engine are
    decimal fractions; sums, differences and products of them are exact in Python as long
    as they fit the 28 significant digits of the default context, and the only inexact
    operation of the engine is the division inside \<open>acb_per_btc\<close>, whose quotient is
    rounded to cents at once. Values are taken to stay within that precision, so that no
    signal of the decimal context is raised.
  \<^item> A Python \<open>datetime\<close> (naive) is a record of its fields. Comparison and the
    subtraction of \<open>timedelta(days=30)\<close> are taken on the number of microseconds since the
    start of the proleptic Gregorian calendar, as the library does; the library's lower
    bound on dates (year 1) is not modelled.
\<close>

subsection \<open>Decimal rounding\<close>

text \<open>\<open>Decimal.quantize(Decimal('0.01'), rounding=ROUND_HALF_UP)\<close>: to two decimal places,
  ties away from zero.\<close>

definition quantize_cents :: "rat \<Rightarrow> rat" where
  "quantize_cents q =
     (if 0 \<le> q then of_int \<lfloor>q * 100 + 1 / 2\<rfloor> / 100
      else - (of_int \<lfloor>- q * 100 + 1 / 2\<rfloor> / 100))"

subsection \<open>Dates\<close>

record datetime =
  year :: int
  month :: int
  day :: int
  hour :: int
  minute :: int
  second :: int
  microsecond :: int

definition is_leap :: "int \<Rightarrow> bool" where
  "is_leap y = (if y mod 400 = 0 then True else if y mod 100 = 0 then False else y mod 4 = 0)"

definition days_before_year :: "int \<Rightarrow> int" where
  "days_before_year y = (y - 1) * 365 + (y - 1) div 4 - (y - 1) div 100 + (y - 1) div 400"

definition days_before_month :: "int \<Rightarrow> int \<Rightarrow> int" where
  "days_before_month y m =
     (if 1 \<le> m \<and> m \<le> 12
      then [0, 31, 59, 90, 120, 151, 181, 212, 243, 273, 304, 334] ! nat (m - 1)
           + (if 2 < m \<and> is_leap y then 1 else 0)
      else 0)"

definition toordinal :: "datetime \<Rightarrow> int" where
  "toordinal d = days_before_year (year d) + days_before_month (year d) (month d) + day d"

text \<open>The position of a datetime on the time line, in microseconds.\<close>

definition dt_micros :: "datetime \<Rightarrow> int" where
  "dt_micros d =
     (((toordinal d * 24 + hour d) * 60 + minute d) * 60 + second d) * 1000000
     + microsecond d"

text \<open>\<open>timedelta(days=30)\<close>, in microseconds.\<close>

definition thirty_days :: int where
  "thirty_days = 30 * 24 * 60 * 60 * 1000000"

text \<open>\<open>strftime('%Y-%m-%d')\<close>: four digits of year, two of month, two of day.\<close>

definition digit :: "int \<Rightarrow> char" where
  "digit n = ''0123456789'' ! nat (n mod 10)"

definition strftime_ymd :: "datetime \<Rightarrow> string" where
  "strftime_ymd d =
     [digit (year d div 1000), digit (year d div 100), digit (year d div 10), digit (year d)]
     @ ''-'' @ [digit (month d div 10), digit (month d)]
     @ ''-'' @ [digit (day d div 10), digit (day d)]"

subsection \<open>Transactions, ledger entries, calculator state\<close>

record Transaction =
  date :: datetime
  tx_type :: string
  amount_btc :: rat
  price_cad :: rat
  fee_cad :: rat
  label :: string

record LedgerEntry =
  le_date :: datetime
  le_tx_type :: string
  le_amount_btc :: rat
  le_price_cad :: rat
  le_fee_cad :: rat
  total_cost_after :: rat
  total_btc_after :: rat
  le_acb_per_btc :: rat
  proceeds :: "rat option"
  cost_basis :: "rat option"
  capital_gain :: "rat option"
  superficial_loss_flag :: bool
  superficial_loss_note :: string
  le_label :: string

record ACBCalculator =
  total_cost :: rat
  total_btc :: rat
  ledger :: "LedgerEntry list"
  recent_transactions :: "Transaction list"

definition is_acquisition :: "Transaction \<Rightarrow> bool" where
  "is_acquisition tx = (tx_type tx \<in> set [''buy'', ''receive''])"

definition is_disposition :: "Transaction \<Rightarrow> bool" where
  "is_disposition tx = (tx_type tx \<in> set [''sell'', ''spend'', ''send''])"

definition recognized :: "Transaction \<Rightarrow> bool" where
  "recognized tx = (if is_acquisition tx then True else is_disposition tx)"

subsection \<open>The property \<open>acb_per_btc\<close>\<close>

definition acb_per_btc :: "ACBCalculator \<Rightarrow> rat" where
  "acb_per_btc c =
     (if total_btc c \<le> 0 then 0 else quantize_cents (total_cost c / total_btc c))"

subsection \<open>\<open>_process_acquisition\<close>\<close>

definition process_acquisition :: "ACBCalculator \<Rightarrow> Transaction \<Rightarrow> ACBCalculator \<times> LedgerEntry" where
  "process_acquisition c tx =
     (let acquisition_cost = amount_btc tx * price_cad tx + fee_cad tx;
          c1 = c\<lparr>total_cost := total_cost c + acquisition_cost,
                 total_btc := total_btc c + amount_btc tx\<rparr>;
          entry = \<lparr>le_date = date tx, le_tx_type = tx_type tx,
                   le_amount_btc = amount_btc tx, le_price_cad = price_cad tx,
                   le_fee_cad = fee_cad tx,
                   total_cost_after = total_cost c1, total_btc_after = total_btc c1,
                   le_acb_per_btc = acb_per_btc c1,
                   proceeds = None, cost_basis = None, capital_gain = None,
                   superficial_loss_flag = False, superficial_loss_note = [],
                   le_label = label tx\<rparr>
      in (c1, entry))"

subsection \<open>\<open>_check_superficial_loss\<close>\<close>

definition flagged_note :: "datetime \<Rightarrow> string" where
  "flagged_note d =
     ''POTENTIAL SUPERFICIAL LOSS: BTC acquired on '' @ strftime_ymd d @ '' ''
     @ ''(within 30 days before this sale). ''
     @ ''Review if still held 30 days after sale.''"

definition unflagged_note :: string where
  "unflagged_note =
     ''Note: Check for purchases within 30 days AFTER this sale for superficial loss.''"

definition in_window :: "datetime \<Rightarrow> datetime \<Rightarrow> bool" where
  "in_window loss_date d =
     (dt_micros loss_date - thirty_days \<le> dt_micros d \<and> dt_micros d < dt_micros loss_date)"

fun scan_recent :: "datetime \<Rightarrow> Transaction list \<Rightarrow> bool \<times> string" where
  "scan_recent loss_date [] = (False, unflagged_note)"
| "scan_recent loss_date (recent_tx # rest) =
     (if is_acquisition recent_tx
      then (if in_window loss_date (date recent_tx)
            then (True, flagged_note (date recent_tx))
            else scan_recent loss_date rest)
      else scan_recent loss_date rest)"

definition check_superficial_loss :: "ACBCalculator \<Rightarrow> Transaction \<Rightarrow> bool \<times> string" where
  "check_superficial_loss c tx = scan_recent (date tx) (recent_transactions c)"

subsection \<open>\<open>_process_disposition\<close>\<close>

definition epsilon_btc :: rat where
  "epsilon_btc = 1 / 100000000"

definition process_disposition :: "ACBCalculator \<Rightarrow> Transaction \<Rightarrow> ACBCalculator \<times> LedgerEntry" where
  "process_disposition c tx =
     (let proceeds0 = amount_btc tx * price_cad tx;
          proceeds1 = proceeds0 - fee_cad tx;
          cost_basis1 = amount_btc tx * acb_per_btc c;
          capital_gain1 = proceeds1 - cost_basis1;
          (superficial_flag, superficial_note) =
             (if capital_gain1 < 0 then check_superficial_loss c tx else (False, []));
          cost_removed = amount_btc tx * acb_per_btc c;
          c1 = c\<lparr>total_cost := total_cost c - cost_removed,
                 total_btc := total_btc c - amount_btc tx\<rparr>;
          c2 = (if total_btc c1 < epsilon_btc
                then c1\<lparr>total_btc := 0, total_cost := 0\<rparr> else c1);
          entry = \<lparr>le_date = date tx, le_tx_type = tx_type tx,
                   le_amount_btc = amount_btc tx, le_price_cad = price_cad tx,
                   le_fee_cad = fee_cad tx,
                   total_cost_after = total_cost c2, total_btc_after = total_btc c2,
                   le_acb_per_btc = acb_per_btc c2,
                   proceeds = Some proceeds1, cost_basis = Some cost_basis1,
                   capital_gain = Some capital_gain1,
                   superficial_loss_flag = superficial_flag,
                   superficial_loss_note = superficial_note,
                   le_label = label tx\<rparr>
      in (c2, entry))"

subsection \<open>\<open>process_transactions\<close>\<close>

text \<open>One iteration of the loop: an unknown type takes the \<open>continue\<close> branch.\<close>

definition loop_body :: "ACBCalculator \<Rightarrow> Transaction \<Rightarrow> ACBCalculator" where
  "loop_body c tx =
     (if is_acquisition tx
      then (let (c1, entry) = process_acquisition c tx
            in c1\<lparr>ledger := ledger c1 @ [entry],
                  recent_transactions := recent_transactions c1 @ [tx]\<rparr>)
      else if is_disposition tx
      then (let (c1, entry) = process_disposition c tx
            in c1\<lparr>ledger := ledger c1 @ [entry],
                  recent_transactions := recent_transactions c1 @ [tx]\<rparr>)
      else c)"

fun process_loop :: "ACBCalculator \<Rightarrow> Transaction list \<Rightarrow> ACBCalculator" where
  "process_loop c [] = c"
| "process_loop c (tx # txs) = process_loop (loop_body c tx) txs"

text \<open>\<open>sorted(transactions, key=lambda x: x.date)\<close>: Python's sort is stable, and so is
  the insertion sort \<open>sort_key\<close>.\<close>

definition sorted_txs :: "Transaction list \<Rightarrow> Transaction list" where
  "sorted_txs transactions = sort_key (\<lambda>x. dt_micros (date x)) transactions"

definition reset :: "ACBCalculator \<Rightarrow> ACBCalculator" where
  "reset c = c\<lparr>ledger := [], total_cost := 0, total_btc := 0, recent_transactions := []\<rparr>"

definition process_transactions ::
    "ACBCalculator \<Rightarrow> Transaction list \<Rightarrow> ACBCalculator \<times> LedgerEntry list" where
  "process_transactions c transactions =
     (let c' = process_loop (reset c) (sorted_txs transactions) in (c', ledger c'))"

text \<open>\<open>ACBCalculator.__init__\<close>.\<close>

definition init :: ACBCalculator where
  "init = \<lparr>total_cost = 0, total_btc = 0, ledger = [], recent_transactions = []\<rparr>"

subsection \<open>\<open>get_summary\<close>\<close>





subsection \<open>The fixture of \<open>create_test_transactions\<close>\<close>

definition mk_date :: "int \<Rightarrow> int \<Rightarrow> int \<Rightarrow> datetime" where
  "mk_date y m d = \<lparr>year = y, month = m, day = d, hour = 0, minute = 0, second = 0,
                    microsecond = 0\<rparr>"

definition tx1 :: Transaction where
  "tx1 = \<lparr>date = mk_date 2024 1 15, tx_type = ''buy'', amount_btc = 0.5,
          price_cad = 60000, fee_cad = 50, label = ''DCA Purchase''\<rparr>"

definition tx2 :: Transaction where
  "tx2 = \<lparr>date = mk_date 2024 2 20, tx_type = ''buy'', amount_btc = 0.25,
          price_cad = 65000, fee_cad = 30, label = ''DCA Purchase''\<rparr>"

definition tx3 :: Transaction where
  "tx3 = \<lparr>date = mk_date 2024 3 10, tx_type = ''sell'', amount_btc = 0.3,
          price_cad = 70000, fee_cad = 25, label = ''Taking profit''\<rparr>"

definition tx4 :: Transaction where
  "tx4 = \<lparr>date = mk_date 2024 4 5, tx_type = ''buy'', amount_btc = 0.1,
          price_cad = 55000, fee_cad = 15, label = ''Buying dip''\<rparr>"

definition tx5 :: Transaction where
  "tx5 = \<lparr>date = mk_date 2024 4 20, tx_type = ''sell'', amount_btc = 0.2,
          price_cad = 50000, fee_cad = 20, label = ''Loss sale - check superficial''\<rparr>"

subsection \<open>Concrete pools and transactions used in the examples\<close>

text \<open>A transaction with the timestamp of \<open>tx1\<close>.\<close>

definition tx1b :: Transaction where
  "tx1b = \<lparr>date = mk_date 2024 1 15, tx_type = ''receive'', amount_btc = 0.1,
           price_cad = 61000, fee_cad = 0, label = ''Same day''\<rparr>"

definition pool_100 :: ACBCalculator where
  "pool_100 = \<lparr>total_cost = 100, total_btc = 1, ledger = [], recent_transactions = []\<rparr>"



definition buy3 :: Transaction where
  "buy3 = \<lparr>date = mk_date 2024 1 15, tx_type = ''buy'', amount_btc = 3,
           price_cad = 60000, fee_cad = 50, label = []\<rparr>"

definition sell_most :: Transaction where
  "sell_most = \<lparr>date = mk_date 2024 3 10, tx_type = ''sell'', amount_btc = 2.9999999,
                price_cad = 70000, fee_cad = 0, label = []\<rparr>"

definition transfer_tx :: Transaction where
  "transfer_tx = \<lparr>date = mk_date 2024 2 1, tx_type = ''transfer'', amount_btc = 1,
                  price_cad = 70000, fee_cad = 0, label = []\<rparr>"










text \<open>An entry of a disposal, recognised by the type it echoes.\<close>

definition is_disposal_entry :: "LedgerEntry \<Rightarrow> bool" where
  "is_disposal_entry e = (le_tx_type e \<in> set [''sell'', ''spend'', ''send''])"

section \<open>Properties\<close>

subsection \<open>Rounding to cents\<close>

lemma round_half_near: "\<bar>of_int \<lfloor>x + 1 / 2\<rfloor> - x\<bar> \<le> 1 / (2::rat)"
proof -
  have lo: "of_int \<lfloor>x + 1 / 2\<rfloor> \<le> x + 1 / 2"
    by (rule of_int_floor_le)
  have hi: "x + 1 / 2 < of_int \<lfloor>x + 1 / 2\<rfloor> + 1"
    by linarith
  from lo hi show ?thesis by linarith
qed

lemma quantize_cents_int: "quantize_cents q * 100 \<in> \<int>"
  by (simp add: quantize_cents_def)

lemma quantize_cents_near: "\<bar>quantize_cents q - q\<bar> \<le> 1 / 200"
proof (cases "0 \<le> q")
  case True
  have "\<bar>of_int \<lfloor>q * 100 + 1 / 2\<rfloor> - q * 100\<bar> \<le> 1 / 2"
    by (rule round_half_near)
  moreover have "quantize_cents q = of_int \<lfloor>q * 100 + 1 / 2\<rfloor> / 100"
    using True by (simp add: quantize_cents_def)
  ultimately show ?thesis by linarith
next
  case False
  have "\<bar>of_int \<lfloor>- q * 100 + 1 / 2\<rfloor> - (- q * 100)\<bar> \<le> 1 / 2"
    by (rule round_half_near)
  moreover have "quantize_cents q = - (of_int \<lfloor>- q * 100 + 1 / 2\<rfloor> / 100)"
    using False by (simp add: quantize_cents_def)
  ultimately show ?thesis by linarith
qed

subsection \<open>One iteration of the loop\<close>

lemma disjoint_kinds: "is_acquisition tx \<Longrightarrow> \<not> is_disposition tx"
  by (auto simp: is_acquisition_def is_disposition_def)

lemma loop_body_disposition:
  "is_disposition tx \<Longrightarrow>
   loop_body c tx = (fst (process_disposition c tx))
     \<lparr>ledger := ledger c @ [snd (process_disposition c tx)],
      recent_transactions := recent_transactions c @ [tx]\<rparr>"
  using disjoint_kinds [of tx]
  by (auto simp: loop_body_def process_disposition_def Let_def split: prod.splits)

lemma loop_body_acquisition:
  "is_acquisition tx \<Longrightarrow>
   loop_body c tx = (fst (process_acquisition c tx))
     \<lparr>ledger := ledger c @ [snd (process_acquisition c tx)],
      recent_transactions := recent_transactions c @ [tx]\<rparr>"
  by (auto simp: loop_body_def process_acquisition_def Let_def split: prod.splits)

lemma loop_body_unrecognized: "\<not> recognized tx \<Longrightarrow> loop_body c tx = c"
  by (simp add: loop_body_def recognized_def split: if_splits)

subsection \<open>The per-unit cost of a disposal\<close>



subsection \<open>The dust clamp\<close>

text \<open>
  C5. A disposal takes \<open>amount\<close> off \<open>total_btc\<close> and \<open>amount * acb_per_btc\<close> off
  \<open>total_cost\<close>. If the units left are strictly below 0.00000001, both totals become
  exactly 0; otherwise both keep the value after the subtraction. The entry's snapshot is
  the resulting pool.
\<close>

theorem disposal_clamps_dust:
  "total_btc (fst (process_disposition c tx)) =
     (if total_btc c - amount_btc tx < 1 / 100000000 then 0 else total_btc c - amount_btc tx)
   \<and> total_cost (fst (process_disposition c tx)) =
     (if total_btc c - amount_btc tx < 1 / 100000000 then 0
      else total_cost c - amount_btc tx * acb_per_btc c)
   \<and> total_btc_after (snd (process_disposition c tx)) = total_btc (fst (process_disposition c tx))
   \<and> total_cost_after (snd (process_disposition c tx)) = total_cost (fst (process_disposition c tx))"
  by (simp add: process_disposition_def Let_def epsilon_btc_def split: prod.splits)

subsection \<open>Disposals from an empty pool or at price zero\<close>




subsection \<open>The loop as a whole\<close>

lemma reset_init: "reset c = init"
  by (simp add: reset_def init_def)

lemma init_fields:
  "total_cost init = 0" "total_btc init = 0" "ledger init = []" "recent_transactions init = []"
  by (simp_all add: init_def)

lemma process_loop_append: "process_loop c (xs @ ys) = process_loop (process_loop c xs) ys"
  by (induction xs arbitrary: c) simp_all

lemma process_loop_filter: "process_loop c (filter recognized xs) = process_loop c xs"
  by (induction xs arbitrary: c) (simp_all add: loop_body_unrecognized)

lemma sorted_txs_filter: "sorted_txs (filter P xs) = filter P (sorted_txs xs)"
  by (simp add: sorted_txs_def filter_sort)

lemma recognized_loop_body:
  "recognized tx \<Longrightarrow> recent_transactions (loop_body c tx) = recent_transactions c @ [tx]"
  by (auto simp: recognized_def loop_body_acquisition loop_body_disposition split: if_splits)

lemma recent_process_loop:
  "recent_transactions (process_loop c xs) = recent_transactions c @ filter recognized xs"
proof (induction xs arbitrary: c)
  case Nil
  show ?case by simp
next
  case (Cons x xs)
  show ?case
  proof (cases "recognized x")
    case True
    then show ?thesis by (simp add: Cons.IH recognized_loop_body)
  next
    case False
    then show ?thesis by (simp add: Cons.IH loop_body_unrecognized)
  qed
qed

lemma entry_date_disposition: "le_date (snd (process_disposition c tx)) = date tx"
  by (simp add: process_disposition_def Let_def split: prod.splits)

lemma entry_date_acquisition: "le_date (snd (process_acquisition c tx)) = date tx"
  by (simp add: process_acquisition_def Let_def)

lemma ledger_dates_loop_body:
  "recognized tx \<Longrightarrow> map le_date (ledger (loop_body c tx)) = map le_date (ledger c) @ [date tx]"
  by (auto simp: recognized_def loop_body_acquisition loop_body_disposition
        entry_date_disposition entry_date_acquisition split: if_splits)

lemma ledger_dates_process_loop:
  "map le_date (ledger (process_loop c xs))
     = map le_date (ledger c) @ map date (filter recognized xs)"
proof (induction xs arbitrary: c)
  case Nil
  show ?case by simp
next
  case (Cons x xs)
  show ?case
  proof (cases "recognized x")
    case True
    then show ?thesis by (simp add: Cons.IH ledger_dates_loop_body)
  next
    case False
    then show ?thesis by (simp add: Cons.IH loop_body_unrecognized)
  qed
qed

subsection \<open>The fixture\<close>

text \<open>
  C2, as the code computes it. Processing the two acquisitions (0.5 units at 60000 with fee
  50, 0.25 units at 65000 with fee 30) from an empty pool gives total cost
  30050 + 16280 = 46330 and 0.75 units, so the per-unit cost is 61773.33. The disposal of 0.3
  units at 70000 with fee 25 then has proceeds 20975, cost basis 0.3 * 61773.33 = 18531.999
  (the cost basis is not rounded) and gain 2443.001, and no superficial-loss flag.
\<close>

theorem fixture_run_values:
  "total_cost (fst (process_transactions init [tx1, tx2])) = 46330
   \<and> total_btc (fst (process_transactions init [tx1, tx2])) = 0.75
   \<and> acb_per_btc (fst (process_transactions init [tx1, tx2])) = 61773.33
   \<and> map proceeds (snd (process_transactions init [tx1, tx2, tx3])) = [None, None, Some 20975]
   \<and> map cost_basis (snd (process_transactions init [tx1, tx2, tx3]))
       = [None, None, Some 18531.999]
   \<and> map capital_gain (snd (process_transactions init [tx1, tx2, tx3]))
       = [None, None, Some 2443.001]
   \<and> map superficial_loss_flag (snd (process_transactions init [tx1, tx2, tx3]))
       = [False, False, False]"
  by code_simp

text \<open>
  C2 as stated gives total cost 46280, per-unit cost 61706.67, cost basis 18512.00 and gain
  2463.00. None of the four is what the run yields.
\<close>

theorem fixture_spec_values_differ:
  "total_cost (fst (process_transactions init [tx1, tx2])) \<noteq> 46280
   \<and> acb_per_btc (fst (process_transactions init [tx1, tx2])) \<noteq> 61706.67
   \<and> map cost_basis (snd (process_transactions init [tx1, tx2, tx3])) \<noteq> [None, None, Some 18512]
   \<and> map capital_gain (snd (process_transactions init [tx1, tx2, tx3]))
       \<noteq> [None, None, Some 2463]"
  by code_simp

subsection \<open>Sign of the pool\<close>

lemma units_after_disposition: "0 \<le> total_btc (fst (process_disposition c tx))"
  by (simp add: process_disposition_def Let_def epsilon_btc_def split: prod.splits)

lemma units_after_acquisition:
  "0 \<le> total_btc c \<Longrightarrow> 0 \<le> amount_btc tx \<Longrightarrow> 0 \<le> total_btc (fst (process_acquisition c tx))"
  by (simp add: process_acquisition_def Let_def)

text \<open>
  C3 asks \<open>total_cost \<ge> 0\<close> after every transaction. Buying 3 units at 60000 with fee 50
  gives a pool of cost 180050, whose per-unit cost 60016.666... is rounded up to 60016.67.
  Selling 2.9999999 units removes 2.9999999 * 60016.67 = 180050.003998333, more than the
  pool holds: the total cost left is negative, and 0.0000001 units remain, which is not
  below the clamp's threshold.
\<close>

theorem pool_cost_negative_after_disposal:
  "total_cost (fst (process_transactions init [buy3, sell_most])) = - (3998333 / 10 ^ 9)
   \<and> total_cost (fst (process_transactions init [buy3, sell_most])) < 0
   \<and> total_btc (fst (process_transactions init [buy3, sell_most])) = 1 / 10 ^ 7"
  by code_simp

subsection \<open>Unknown transaction types\<close>

text \<open>
  C9. A transaction whose type is neither an acquisition type (buy, receive) nor a
  disposition type (sell, spend, send) leaves the calculator as it is: no entry, no change of
  the pool, and the loop goes on with the rest. A whole run gives the same result as the
  run on the input without such transactions.
\<close>

theorem unrecognized_kind_skipped:
  "\<not> recognized tx \<Longrightarrow>
     loop_body c tx = c
     \<and> process_loop c (pre @ tx # rest) = process_loop c (pre @ rest)
     \<and> ledger (process_loop c (pre @ tx # rest)) = ledger (process_loop c (pre @ rest))
     \<and> process_transactions c txs = process_transactions c (filter recognized txs)"
  by (simp add: loop_body_unrecognized process_loop_append process_transactions_def
        sorted_txs_filter process_loop_filter)

theorem unrecognized_kind_skipped_witness:
  "\<not> recognized transfer_tx
   \<and> loop_body init transfer_tx = init
   \<and> process_loop init ([tx1] @ transfer_tx # [tx2]) = process_loop init ([tx1] @ [tx2])"
proof -
  have h: "\<not> recognized transfer_tx" by code_simp
  show ?thesis using h unrecognized_kind_skipped [OF h, of init "[tx1]" "[tx2]" "[]"] by blast
qed

subsection \<open>Sorting and repeatability\<close>

text \<open>
  C8. A run starts by resetting the calculator to the empty one: total cost 0, total units 0,
  empty ledger, empty history; it then processes \<open>sorted_txs\<close> of its input. So the run on
  the empty input leaves the empty pool, a run does not depend on the calculator it starts
  from, and running twice on the same input gives the same ledger. The history holds the
  recognised transactions in the order of \<open>sorted_txs\<close> and the ledger's dates mirror it.
  That order is ascending by timestamp, and stable: the transactions sharing a timestamp are
  in their input order. On the fixture given out of order, and started from a pool that is
  not empty, the run yields the ledger of the ordered fixture from the empty pool; two
  transactions of the same day keep their input order.
\<close>

theorem process_sorts_and_is_repeatable:
  "reset c = init
   \<and> total_cost (reset c) = 0 \<and> total_btc (reset c) = 0
   \<and> ledger (reset c) = [] \<and> recent_transactions (reset c) = []
   \<and> process_transactions c txs
       = (process_loop (reset c) (sorted_txs txs), ledger (process_loop (reset c) (sorted_txs txs)))
   \<and> total_cost (fst (process_transactions c [])) = 0
   \<and> total_btc (fst (process_transactions c [])) = 0
   \<and> snd (process_transactions c []) = []
   \<and> recent_transactions (fst (process_transactions c [])) = []
   \<and> process_transactions c txs = process_transactions c' txs
   \<and> snd (process_transactions (fst (process_transactions c txs)) txs)
       = snd (process_transactions c txs)
   \<and> recent_transactions (fst (process_transactions c txs)) = filter recognized (sorted_txs txs)
   \<and> map le_date (snd (process_transactions c txs)) = map date (filter recognized (sorted_txs txs))
   \<and> sorted (map (\<lambda>x. dt_micros (date x)) (sorted_txs txs))
   \<and> (\<forall>k. filter (\<lambda>x. dt_micros (date x) = k) (sorted_txs txs)
          = filter (\<lambda>x. dt_micros (date x) = k) txs)
   \<and> sorted_txs [tx3, tx1, tx2] = [tx1, tx2, tx3]
   \<and> sorted_txs [tx3, tx1b, tx1] = [tx1b, tx1, tx3]
   \<and> sorted_txs [tx3, tx1, tx1b] = [tx1, tx1b, tx3]
   \<and> snd (process_transactions pool_100 [tx3, tx1, tx2]) = snd (process_transactions init [tx1, tx2, tx3])
   \<and> snd (process_transactions (fst (process_transactions pool_100 [tx3, tx1, tx2])) [tx3, tx1, tx2])
       = snd (process_transactions init [tx1, tx2, tx3])
   \<and> total_cost (fst (process_transactions pool_100 [tx2, tx1])) = 46330
   \<and> total_btc (fst (process_transactions pool_100 [tx2, tx1])) = 0.75"
proof (intro conjI allI)
  show "reset c = init" by (rule reset_init)
  show "total_cost (reset c) = 0" by (simp add: reset_def)
  show "total_btc (reset c) = 0" by (simp add: reset_def)
  show "ledger (reset c) = []" by (simp add: reset_def)
  show "recent_transactions (reset c) = []" by (simp add: reset_def)
  show "process_transactions c txs
       = (process_loop (reset c) (sorted_txs txs), ledger (process_loop (reset c) (sorted_txs txs)))"
    by (simp add: process_transactions_def Let_def)
  show "total_cost (fst (process_transactions c [])) = 0"
    by (simp add: process_transactions_def Let_def sorted_txs_def reset_def)
  show "total_btc (fst (process_transactions c [])) = 0"
    by (simp add: process_transactions_def Let_def sorted_txs_def reset_def)
  show "snd (process_transactions c []) = []"
    by (simp add: process_transactions_def Let_def sorted_txs_def reset_def)
  show "recent_transactions (fst (process_transactions c [])) = []"
    by (simp add: process_transactions_def Let_def sorted_txs_def reset_def)
  show "process_transactions c txs = process_transactions c' txs"
    by (simp add: process_transactions_def reset_init)
  show "snd (process_transactions (fst (process_transactions c txs)) txs)
       = snd (process_transactions c txs)"
    by (simp add: process_transactions_def reset_init)
  show "recent_transactions (fst (process_transactions c txs)) = filter recognized (sorted_txs txs)"
    by (simp add: process_transactions_def Let_def recent_process_loop reset_init init_fields)
  show "map le_date (snd (process_transactions c txs)) = map date (filter recognized (sorted_txs txs))"
    by (simp add: process_transactions_def Let_def ledger_dates_process_loop reset_init init_fields)
  show "sorted (map (\<lambda>x. dt_micros (date x)) (sorted_txs txs))"
    by (simp add: sorted_txs_def)
  show "filter (\<lambda>x. dt_micros (date x) = k) (sorted_txs txs)
          = filter (\<lambda>x. dt_micros (date x) = k) txs" for k
    by (simp add: sorted_txs_def sort_key_stable)
  show "sorted_txs [tx3, tx1, tx2] = [tx1, tx2, tx3]" by code_simp
  show "sorted_txs [tx3, tx1b, tx1] = [tx1b, tx1, tx3]" by code_simp
  show "sorted_txs [tx3, tx1, tx1b] = [tx1, tx1b, tx3]" by code_simp
  show "snd (process_transactions pool_100 [tx3, tx1, tx2]) = snd (process_transactions init [tx1, tx2, tx3])"
    by code_simp
  show "snd (process_transactions (fst (process_transactions pool_100 [tx3, tx1, tx2])) [tx3, tx1, tx2])
       = snd (process_transactions init [tx1, tx2, tx3])"
    by code_simp
  show "total_cost (fst (process_transactions pool_100 [tx2, tx1])) = 46330" by code_simp
  show "total_btc (fst (process_transactions pool_100 [tx2, tx1])) = 0.75" by code_simp
qed

subsection \<open>Continuity of the per-unit cost\<close>

lemma acb_per_btc_cong:
  "total_cost c' = total_cost c \<Longrightarrow> total_btc c' = total_btc c \<Longrightarrow> acb_per_btc c' = acb_per_btc c"
  by (simp add: acb_per_btc_def)

lemma disposition_entry_fields:
  "cost_basis (snd (process_disposition c tx)) = Some (amount_btc tx * acb_per_btc c)"
  "le_amount_btc (snd (process_disposition c tx)) = amount_btc tx"
  "le_tx_type (snd (process_disposition c tx)) = tx_type tx"
  "le_acb_per_btc (snd (process_disposition c tx)) = acb_per_btc (fst (process_disposition c tx))"
  by (simp_all add: process_disposition_def Let_def split: prod.splits)

lemma acquisition_entry_fields:
  "le_tx_type (snd (process_acquisition c tx)) = tx_type tx"
  "le_acb_per_btc (snd (process_acquisition c tx)) = acb_per_btc (fst (process_acquisition c tx))"
  by (simp_all add: process_acquisition_def Let_def)

lemma acquisition_entry_not_disposal:
  "is_acquisition tx \<Longrightarrow> \<not> is_disposal_entry (snd (process_acquisition c tx))"
  using disjoint_kinds [of tx]
  by (simp add: is_disposal_entry_def acquisition_entry_fields is_disposition_def)

text \<open>The last entry reports the per-unit cost of the current pool.\<close>

lemma last_entry_loop_body:
  assumes "ledger c = [] \<or> le_acb_per_btc (last (ledger c)) = acb_per_btc c"
  shows "ledger (loop_body c tx) = []
         \<or> le_acb_per_btc (last (ledger (loop_body c tx))) = acb_per_btc (loop_body c tx)"
proof (cases "is_acquisition tx")
  case True
  then show ?thesis
    by (simp add: loop_body_acquisition acquisition_entry_fields acb_per_btc_def)
next
  case False
  show ?thesis
  proof (cases "is_disposition tx")
    case True
    then show ?thesis
      by (simp add: loop_body_disposition disposition_entry_fields acb_per_btc_def)
  next
    case d: False
    with False have "loop_body c tx = c" by (simp add: loop_body_def)
    with assms show ?thesis by simp
  qed
qed

lemma continuity_snoc:
  assumes cont: "\<forall>i. 0 < i \<and> i < length L \<and> is_disposal_entry (L ! i) \<longrightarrow>
            cost_basis (L ! i) = Some (le_amount_btc (L ! i) * le_acb_per_btc (L ! (i - 1)))"
    and new: "L \<noteq> [] \<and> is_disposal_entry e \<longrightarrow>
            cost_basis e = Some (le_amount_btc e * le_acb_per_btc (last L))"
  shows "\<forall>i. 0 < i \<and> i < length (L @ [e]) \<and> is_disposal_entry ((L @ [e]) ! i) \<longrightarrow>
            cost_basis ((L @ [e]) ! i)
              = Some (le_amount_btc ((L @ [e]) ! i) * le_acb_per_btc ((L @ [e]) ! (i - 1)))"
proof (intro allI impI)
  fix i
  assume h: "0 < i \<and> i < length (L @ [e]) \<and> is_disposal_entry ((L @ [e]) ! i)"
  show "cost_basis ((L @ [e]) ! i)
          = Some (le_amount_btc ((L @ [e]) ! i) * le_acb_per_btc ((L @ [e]) ! (i - 1)))"
  proof (cases "i < length L")
    case True
    with h have "(L @ [e]) ! i = L ! i" "(L @ [e]) ! (i - 1) = L ! (i - 1)"
      by (simp_all add: nth_append)
    with h True cont show ?thesis by simp
  next
    case False
    with h have i: "i = length L" by simp
    with h have ne: "L \<noteq> []" by auto
    from i have a: "(L @ [e]) ! i = e" by simp
    from i ne have b: "(L @ [e]) ! (i - 1) = last L"
      by (simp add: nth_append last_conv_nth)
    from h a new ne have "cost_basis e = Some (le_amount_btc e * le_acb_per_btc (last L))"
      by simp
    then show ?thesis by (simp only: a b)
  qed
qed

lemma continuity_loop_body:
  assumes lastp: "ledger c = [] \<or> le_acb_per_btc (last (ledger c)) = acb_per_btc c"
    and cont: "\<forall>i. 0 < i \<and> i < length (ledger c) \<and> is_disposal_entry (ledger c ! i) \<longrightarrow>
            cost_basis (ledger c ! i)
              = Some (le_amount_btc (ledger c ! i) * le_acb_per_btc (ledger c ! (i - 1)))"
  shows "\<forall>i. 0 < i \<and> i < length (ledger (loop_body c tx))
              \<and> is_disposal_entry (ledger (loop_body c tx) ! i) \<longrightarrow>
            cost_basis (ledger (loop_body c tx) ! i)
              = Some (le_amount_btc (ledger (loop_body c tx) ! i)
                      * le_acb_per_btc (ledger (loop_body c tx) ! (i - 1)))"
proof (cases "is_acquisition tx")
  case True
  have "ledger (loop_body c tx) = ledger c @ [snd (process_acquisition c tx)]"
    using True by (simp add: loop_body_acquisition)
  moreover have "\<not> is_disposal_entry (snd (process_acquisition c tx))"
    using True by (rule acquisition_entry_not_disposal)
  ultimately show ?thesis
    using continuity_snoc [OF cont, of "snd (process_acquisition c tx)"] by simp
next
  case False
  show ?thesis
  proof (cases "is_disposition tx")
    case True
    have l: "ledger (loop_body c tx) = ledger c @ [snd (process_disposition c tx)]"
      using True by (simp add: loop_body_disposition)
    have "ledger c \<noteq> [] \<and> is_disposal_entry (snd (process_disposition c tx)) \<longrightarrow>
          cost_basis (snd (process_disposition c tx))
            = Some (le_amount_btc (snd (process_disposition c tx))
                    * le_acb_per_btc (last (ledger c)))"
      using lastp by (auto simp: disposition_entry_fields)
    from continuity_snoc [OF cont this] l show ?thesis by simp
  next
    case d: False
    with False have "loop_body c tx = c" by (simp add: loop_body_def)
    with cont show ?thesis by simp
  qed
qed

lemma continuity_process_loop:
  assumes "ledger c = [] \<or> le_acb_per_btc (last (ledger c)) = acb_per_btc c"
    and "\<forall>i. 0 < i \<and> i < length (ledger c) \<and> is_disposal_entry (ledger c ! i) \<longrightarrow>
            cost_basis (ledger c ! i)
              = Some (le_amount_btc (ledger c ! i) * le_acb_per_btc (ledger c ! (i - 1)))"
  shows "\<forall>i. 0 < i \<and> i < length (ledger (process_loop c xs))
              \<and> is_disposal_entry (ledger (process_loop c xs) ! i) \<longrightarrow>
            cost_basis (ledger (process_loop c xs) ! i)
              = Some (le_amount_btc (ledger (process_loop c xs) ! i)
                      * le_acb_per_btc (ledger (process_loop c xs) ! (i - 1)))"
  using assms
proof (induction xs arbitrary: c)
  case Nil
  then show ?case by simp
next
  case (Cons x xs)
  have a: "ledger (loop_body c x) = []
         \<or> le_acb_per_btc (last (ledger (loop_body c x))) = acb_per_btc (loop_body c x)"
    using Cons.prems(1) by (rule last_entry_loop_body)
  have b: "\<forall>i. 0 < i \<and> i < length (ledger (loop_body c x))
              \<and> is_disposal_entry (ledger (loop_body c x) ! i) \<longrightarrow>
            cost_basis (ledger (loop_body c x) ! i)
              = Some (le_amount_btc (ledger (loop_body c x) ! i)
                      * le_acb_per_btc (ledger (loop_body c x) ! (i - 1)))"
    using Cons.prems by (rule continuity_loop_body)
  from Cons.IH [OF a b] show ?case by simp
qed

text \<open>
  C4. In the ledger of a run, every disposal entry that is not the first entry has a cost
  basis equal to its quantity times the per-unit cost reported in the entry just before it.
\<close>

theorem disposal_cost_basis_continuity:
  "0 < i \<and> i < length (snd (process_transactions c txs))
     \<and> is_disposal_entry (snd (process_transactions c txs) ! i) \<Longrightarrow>
   cost_basis (snd (process_transactions c txs) ! i)
     = Some (le_amount_btc (snd (process_transactions c txs) ! i)
             * le_acb_per_btc (snd (process_transactions c txs) ! (i - 1)))"
proof -
  assume h: "0 < i \<and> i < length (snd (process_transactions c txs))
     \<and> is_disposal_entry (snd (process_transactions c txs) ! i)"
  have l: "snd (process_transactions c txs) = ledger (process_loop init (sorted_txs txs))"
    by (simp add: process_transactions_def Let_def reset_init)
  have a: "ledger init = [] \<or> le_acb_per_btc (last (ledger init)) = acb_per_btc init"
    by (simp add: init_fields)
  have b: "\<forall>i. 0 < i \<and> i < length (ledger init) \<and> is_disposal_entry (ledger init ! i) \<longrightarrow>
            cost_basis (ledger init ! i)
              = Some (le_amount_btc (ledger init ! i) * le_acb_per_btc (ledger init ! (i - 1)))"
    by (simp add: init_fields)
  from continuity_process_loop [OF a b, of "sorted_txs txs"] h l show ?thesis by simp
qed

theorem disposal_cost_basis_continuity_witness:
  "0 < (2::nat) \<and> 2 < length (snd (process_transactions init [tx3, tx1, tx2]))
   \<and> is_disposal_entry (snd (process_transactions init [tx3, tx1, tx2]) ! 2)
   \<and> cost_basis (snd (process_transactions init [tx3, tx1, tx2]) ! 2)
     = Some (le_amount_btc (snd (process_transactions init [tx3, tx1, tx2]) ! 2)
             * le_acb_per_btc (snd (process_transactions init [tx3, tx1, tx2]) ! (2 - 1)))"
proof -
  have h: "0 < (2::nat) \<and> 2 < length (snd (process_transactions init [tx3, tx1, tx2]))
     \<and> is_disposal_entry (snd (process_transactions init [tx3, tx1, tx2]) ! 2)"
    by code_simp
  from h disposal_cost_basis_continuity [OF h] show ?thesis by blast
qed

subsection \<open>The superficial-loss check\<close>








subsection \<open>The summary\<close>



end
